theory Spec2Isabelle
  imports Main
begin

section \<open>Values, errors\<close>

text \<open>
  The cells of a row and the attributes of the remote objects are Python values. Only the
  shapes the pipeline handles are kept: \<open>None\<close>, the float \<open>nan\<close> (what pandas
  stores for a missing cell), strings, integers, lists of strings (the labels of an issue)
  and opaque resource objects (the parent of an issue), named by their printed form.
  Strings are byte lists (ASCII, but for the one accented letter of the project's name).
\<close>

datatype pyval =
    PNone
  | PNaN
  | PStr string
  | PInt int
  | PList "string list"
  | PObj string

text \<open>Python's truth value, as the conditional expressions of the extractor use it.\<close>

fun truthy :: "pyval \<Rightarrow> bool" where
  "truthy PNone = False"
| "truthy PNaN = True"
| "truthy (PStr s) = (s \<noteq> [])"
| "truthy (PInt n) = (n \<noteq> 0)"
| "truthy (PList xs) = (xs \<noteq> [])"
| "truthy (PObj r) = True"

text \<open>
  Every exception the pipeline can raise. \<open>SchemaError col\<close> is the
  \<open>ValueError\<close> that \<open>transform_extracted_data\<close> raises itself for a missing
  column \<open>col\<close>; \<open>ParseError\<close> is the \<open>ValueError\<close> of
  \<open>datetime.strptime\<close>; \<open>ValueError\<close> is any other one; \<open>ConfigError\<close> is the \<open>ValueError\<close> for missing
  connection parameters; \<open>ApiError\<close> is whatever the remote client raises.
\<close>

datatype error =
    SchemaError string
  | ParseError
  | ValueError
  | TypeError
  | ConfigError
  | UnboundLocalError string
  | KeyError string
  | ApiError string
  | OSError string

section \<open>The standard library's \<open>strptime\<close> and \<open>strftime\<close>, for the one format used\<close>

text \<open>
  \<open>datetime.strptime(s, "%Y-%m-%dT%H:%M:%S.%f%z")\<close> compiles the format to a regular
  expression, one named group per directive, matches it at the start of \<open>s\<close> (ignoring
  case), refuses a match that leaves characters over, converts the groups to integers and
  builds a \<open>datetime\<close>, whose constructor checks the ranges.
\<close>

definition is_digit :: "char \<Rightarrow> bool" where
  "is_digit c = (c \<in> set ''0123456789'')"

text \<open>
  The fragment of regular expressions the format compiles to: a character class (the
  characters it accepts), sequence, alternation (the left branch is tried first), the
  empty expression and a capturing group. \<open>EndGrp\<close> is the matcher's own mark for
  the end of an open group.
\<close>

datatype rx =
    Cls string
  | Seq rx rx
  | Alt rx rx
  | Eps
  | Grp rx
  | EndGrp

fun wt :: "rx \<Rightarrow> nat" where
  "wt (Cls cs) = 1"
| "wt (Seq a b) = wt a + wt b + 1"
| "wt (Alt a b) = wt a + wt b + 1"
| "wt Eps = 1"
| "wt (Grp a) = wt a + 2"
| "wt EndGrp = 1"

text \<open>
  \<open>rmatch k s gs cur\<close> matches the expressions \<open>k\<close>, one after the other, at the
  start of \<open>s\<close>; \<open>gs\<close> are the groups closed so far and \<open>cur\<close> the text of the
  open group. An alternation commits to its left branch only if all that follows matches
  too, and falls back to the right branch otherwise: the result is the first match of a
  backtracking engine, with the groups and the characters left over.
\<close>

function (sequential) rmatch ::
  "rx list \<Rightarrow> string \<Rightarrow> string list \<Rightarrow> string option \<Rightarrow> (string list \<times> string) option" where
  "rmatch [] s gs cur = Some (gs, s)"
| "rmatch (Cls cs # k) [] gs cur = None"
| "rmatch (Cls cs # k) (c # s) gs cur =
     (if c \<in> set cs then rmatch k s gs (map_option (\<lambda>g. g @ [c]) cur) else None)"
| "rmatch (Seq a b # k) s gs cur = rmatch (a # b # k) s gs cur"
| "rmatch (Alt a b # k) s gs cur =
     (case rmatch (a # k) s gs cur of
        Some r \<Rightarrow> Some r
      | None \<Rightarrow> rmatch (b # k) s gs cur)"
| "rmatch (Eps # k) s gs cur = rmatch k s gs cur"
| "rmatch (Grp a # k) s gs cur = rmatch (a # EndGrp # k) s gs (Some [])"
| "rmatch (EndGrp # k) s gs cur =
     rmatch k s (case cur of None \<Rightarrow> gs | Some g \<Rightarrow> gs @ [g]) None"
  by pat_completeness auto
termination
  by (relation "measure (\<lambda>(k, s, gs, cur). sum_list (map wt k))") auto

definition Opt :: "rx \<Rightarrow> rx" where
  "Opt a = Alt a Eps"

definition digit :: rx where
  "digit = Cls ''0123456789''"

text \<open>The groups of the directives, as \<open>_strptime.TimeRE\<close> defines them.\<close>

definition rx_Y :: rx where
  "rx_Y = Seq digit (Seq digit (Seq digit digit))"

definition rx_m :: rx where
  "rx_m = Alt (Seq (Cls ''1'') (Cls ''012''))
         (Alt (Seq (Cls ''0'') (Cls ''123456789''))
              (Cls ''123456789''))"

definition rx_d :: rx where
  "rx_d = Alt (Seq (Cls ''3'') (Cls ''01''))
         (Alt (Seq (Cls ''12'') digit)
         (Alt (Seq (Cls ''0'') (Cls ''123456789''))
         (Alt (Cls ''123456789'')
              (Seq (Cls '' '') (Cls ''123456789'')))))"

definition rx_H :: rx where
  "rx_H = Alt (Seq (Cls ''2'') (Cls ''0123''))
         (Alt (Seq (Cls ''01'') digit)
              digit)"

definition rx_M :: rx where
  "rx_M = Alt (Seq (Cls ''012345'') digit) digit"

definition rx_S :: rx where
  "rx_S = Alt (Seq (Cls ''6'') (Cls ''01''))
         (Alt (Seq (Cls ''012345'') digit)
              digit)"

text \<open>\<open>[0-9]{1,6}\<close>, greedy: one digit, then up to five more, as many as match.\<close>

definition rx_f :: rx where
  "rx_f = Seq digit (Opt (Seq digit (Opt (Seq digit (Opt (Seq digit (Opt (Seq digit (Opt digit)))))))))"

text \<open>\<open>[+-]\d\d:?[0-5]\d(:?[0-5]\d(\.\d{1,6})?)?|(?-i:Z)\<close>\<close>

definition rx_z :: rx where
  "rx_z = Alt
     (Seq (Cls ''+-'') (Seq digit (Seq digit
     (Seq (Opt (Cls '':''))
     (Seq (Cls ''012345'') (Seq digit
          (Opt (Seq (Opt (Cls '':''))
               (Seq (Cls ''012345'') (Seq digit
                    (Opt (Seq (Cls ''.'') rx_f))))))))))))
     (Cls ''Z'')"

text \<open>
  The compiled format. The match ignores case, which matters for the literal \<open>T\<close> only
  (the \<open>Z\<close> of \<open>%z\<close> switches case folding off).
\<close>

definition format_regex :: "rx list" where
  "format_regex =
     [Grp rx_Y, Cls ''-'', Grp rx_m, Cls ''-'', Grp rx_d, Cls ''Tt'',
      Grp rx_H, Cls '':'', Grp rx_M, Cls '':'', Grp rx_S, Cls ''.'',
      Grp rx_f, Grp rx_z]"

text \<open>
  \<open>int(s)\<close> on what a group can hold: decimal digits, after blanks (the day group can
  match a blank and a digit). Anything else is a \<open>ValueError\<close>.
\<close>

definition digit_val :: "char \<Rightarrow> nat" where
  "digit_val c = of_char c - 48"

definition py_int :: "string \<Rightarrow> error + nat" where
  "py_int s =
     (let t = dropWhile (\<lambda>c. c = CHR '' '') s
      in if t \<noteq> [] \<and> list_all is_digit t
         then Inr (foldl (\<lambda>a c. 10 * a + digit_val c) 0 t)
         else Inl ParseError)"

text \<open>
  The \<open>%z\<close> group to an offset in seconds, as \<open>_strptime\<close> computes it: a colon after
  the hours is dropped, and then one after the minutes must be there too when seconds
  follow. The fraction of the offset is below a second and decides nothing here.
\<close>

definition parse_z :: "string \<Rightarrow> error + int" where
  "parse_z z0 =
     (if z0 = ''Z'' then Inr 0
      else
        let colon = (z0 ! 3 = CHR '':'');
            z1 = (if colon then take 3 z0 @ drop 4 z0 else z0)
        in if colon \<and> length z1 > 5 \<and> z1 ! 5 \<noteq> CHR '':'' then Inl ParseError
           else
             let z = (if colon \<and> length z1 > 5 then take 5 z1 @ drop 6 z1 else z1);
                 secs = take 2 (drop 5 z)
             in (case py_int (take 2 (drop 1 z)) of Inl e \<Rightarrow> Inl e | Inr hours \<Rightarrow>
                (case py_int (take 2 (drop 3 z)) of Inl e \<Rightarrow> Inl e | Inr minutes \<Rightarrow>
                (case (if secs = [] then Inr 0 else py_int secs) of Inl e \<Rightarrow> Inl e | Inr seconds \<Rightarrow>
                  let gmtoff = int (hours * 60 * 60 + minutes * 60 + seconds)
                  in Inr (if hd z = CHR ''-'' then - gmtoff else gmtoff)))))"

record datetime =
  year :: nat
  month :: nat
  day :: nat
  hour :: nat
  minute :: nat
  second :: nat
  microsecond :: nat
  utcoffset :: int

definition is_leap :: "nat \<Rightarrow> bool" where
  "is_leap y = (y mod 4 = 0 \<and> (y mod 100 \<noteq> 0 \<or> y mod 400 = 0))"

definition days_in_month :: "nat \<Rightarrow> nat \<Rightarrow> nat" where
  "days_in_month y m =
     (if m = 2 then (if is_leap y then 29 else 28)
      else if m = 4 \<or> m = 6 \<or> m = 9 \<or> m = 11 then 30 else 31)"

text \<open>
  The constructors' range checks: \<open>date(year, month, day)\<close> wants a year from 1 and a
  day of that month, \<open>datetime(...)\<close> a second below 60, \<open>timezone(...)\<close> an offset
  strictly inside a day. Each failure is a \<open>ValueError\<close>.
\<close>

definition make_datetime ::
  "nat \<Rightarrow> nat \<Rightarrow> nat \<Rightarrow> nat \<Rightarrow> nat \<Rightarrow> nat \<Rightarrow> nat \<Rightarrow> int \<Rightarrow> error + datetime" where
  "make_datetime y mo d h mi s us off =
     (if 1 \<le> y \<and> y \<le> 9999 \<and> 1 \<le> mo \<and> mo \<le> 12 \<and> 1 \<le> d \<and> d \<le> days_in_month y mo
         \<and> h \<le> 23 \<and> mi \<le> 59 \<and> s \<le> 59 \<and> us \<le> 999999 \<and> \<bar>off\<bar> < 86400
      then Inr \<lparr>year = y, month = mo, day = d, hour = h, minute = mi, second = s,
                microsecond = us, utcoffset = off\<rparr>
      else Inl ParseError)"

definition strptime :: "string \<Rightarrow> error + datetime" where
  "strptime s =
     (case rmatch format_regex s [] None of
        None \<Rightarrow> Inl ParseError
      | Some (groups, rest) \<Rightarrow>
          if rest \<noteq> [] then Inl ParseError
          else
            (case groups of
               [gY, gm, gd, gH, gM, gS, gf, gz] \<Rightarrow>
                 (case py_int gY of Inl e \<Rightarrow> Inl e | Inr y \<Rightarrow>
                 (case py_int gm of Inl e \<Rightarrow> Inl e | Inr mo \<Rightarrow>
                 (case py_int gd of Inl e \<Rightarrow> Inl e | Inr d \<Rightarrow>
                 (case py_int gH of Inl e \<Rightarrow> Inl e | Inr h \<Rightarrow>
                 (case py_int gM of Inl e \<Rightarrow> Inl e | Inr mi \<Rightarrow>
                 (case py_int gS of Inl e \<Rightarrow> Inl e | Inr sec \<Rightarrow>
                 (case py_int (gf @ replicate (6 - length gf) CHR ''0'') of Inl e \<Rightarrow> Inl e | Inr us \<Rightarrow>
                 (case parse_z gz of Inl e \<Rightarrow> Inl e | Inr off \<Rightarrow>
                    make_datetime y mo d h mi sec us off))))))))
             | _ \<Rightarrow> Inl ParseError))"

text \<open>\<open>dt.strftime("%d/%m/%Y %H:%M:%S")\<close>: every field zero-padded to its width.\<close>

definition digit_char :: "nat \<Rightarrow> char" where
  "digit_char n = ''0123456789'' ! (n mod 10)"

definition pad2 :: "nat \<Rightarrow> string" where
  "pad2 n = [digit_char (n div 10), digit_char n]"

definition pad4 :: "nat \<Rightarrow> string" where
  "pad4 n = [digit_char (n div 1000), digit_char (n div 100), digit_char (n div 10), digit_char n]"

definition strftime :: "datetime \<Rightarrow> string" where
  "strftime dt =
     pad2 (day dt) @ ''/'' @ pad2 (month dt) @ ''/'' @ pad4 (year dt) @ '' '' @
     pad2 (hour dt) @ '':'' @ pad2 (minute dt) @ '':'' @ pad2 (second dt)"

section \<open>\<open>reformat_date\<close>\<close>

text \<open>
  \<open>pd.isnull\<close> on a scalar: \<open>None\<close> and \<open>nan\<close>. A list is not a scalar:
  \<open>pd.isnull\<close> answers with an array, whose truth value is an error for two elements
  or more, and no element of a list of strings is null, so a shorter list goes on to
  \<open>strptime\<close>, which refuses whatever is not a string (\<open>TypeError\<close>).
\<close>

fun isnull :: "pyval \<Rightarrow> bool" where
  "isnull PNone = True"
| "isnull PNaN = True"
| "isnull v = False"

fun reformat_date :: "pyval \<Rightarrow> error + pyval" where
  "reformat_date (PList xs) = Inl (if length xs \<le> 1 then TypeError else ValueError)"
| "reformat_date date_str =
     (if isnull date_str \<or> date_str = PStr ''N/A'' then Inr date_str
      else
        (case date_str of
           PStr s \<Rightarrow>
             (case strptime s of
                Inl e \<Rightarrow> Inl e
              | Inr date_obj \<Rightarrow> Inr (PStr (strftime date_obj)))
         | _ \<Rightarrow> Inl TypeError))"

section \<open>The remote objects\<close>

text \<open>
  What the client hands back, as far as the extractor reads it. An attribute read with
  \<open>getattr(obj, name, default)\<close> is an optional field: \<open>None\<close> when the object
  has no such attribute, \<open>Some v\<close> when it has it with value \<open>v\<close> (which may be
  Python's \<open>None\<close>). An attribute read directly is a plain field.
\<close>

record worklog =
  w_author_displayName :: "pyval option"
  w_comment :: "pyval option"
  w_created :: "pyval option"
  w_started :: "pyval option"
  w_timeSpent :: "pyval option"
  w_timeSpentSeconds :: "pyval option"

text \<open>
  \<open>priority_name\<close> is the \<open>name\<close> of \<open>fields.priority\<close>, absent when the
  priority is \<open>None\<close> or has no name; \<open>assignee_displayName\<close> is \<open>None\<close> when
  \<open>fields.assignee\<close> is \<open>None\<close>.
\<close>

record issue =
  key :: string
  summary :: pyval
  priority_name :: "pyval option"
  labels :: "string list"
  assignee_displayName :: "pyval option"
  status_name :: pyval
  creator_displayName :: pyval
  customfield_10160 :: "pyval option"
  customfield_10163 :: "pyval option"
  customfield_10175 :: "pyval option"
  timespent :: pyval
  project_name :: pyval
  created :: pyval
  updated :: pyval
  description :: pyval
  customfield_10090 :: "pyval option"
  customfield_10089 :: "pyval option"
  customfield_10015 :: "pyval option"
  customfield_10152 :: "pyval option"
  parent :: "pyval option"
  worklogs :: "worklog list"

record sprint =
  sid :: int
  sname :: string

definition getattr :: "'a option \<Rightarrow> 'a \<Rightarrow> 'a" where
  "getattr attribute dflt = (case attribute of None \<Rightarrow> dflt | Some v \<Rightarrow> v)"

section \<open>Rows and data frames\<close>

text \<open>
  A row under construction is a Python dict: its keys in insertion order, each once.
  \<open>dict_set\<close> is the assignment \<open>d[k] = v\<close>.
\<close>

type_synonym row = "(string \<times> pyval) list"

fun dict_set :: "'k \<Rightarrow> 'v \<Rightarrow> ('k \<times> 'v) list \<Rightarrow> ('k \<times> 'v) list" where
  "dict_set k v [] = [(k, v)]"
| "dict_set k v (p # ps) = (if fst p = k then (k, v) # ps else p # dict_set k v ps)"

text \<open>
  A data frame: the column labels in order, and the rows, each holding one cell per
  column in that order. (The cells stay Python values: pandas' column types are not
  modelled.)
\<close>

record dataframe =
  columns :: "string list"
  rows :: "pyval list list"

text \<open>
  \<open>pd.DataFrame(records)\<close> for a list of dicts: the columns are the keys in the order
  they first appear, and a key a record lacks gives a \<open>nan\<close> cell.
\<close>

definition record_keys :: "row list \<Rightarrow> string list" where
  "record_keys records =
     foldl (\<lambda>acc r. acc @ filter (\<lambda>k. k \<notin> set acc) (map fst r)) [] records"

definition DataFrame :: "row list \<Rightarrow> dataframe" where
  "DataFrame records =
     (let cols = record_keys records
      in \<lparr>columns = cols,
          rows = map (\<lambda>r. map (\<lambda>c. case map_of r c of None \<Rightarrow> PNaN | Some v \<Rightarrow> v) cols) records\<rparr>)"

section \<open>The extractor\<close>

text \<open>The name of the project, \<open>Gest\<close>, a-tilde (two bytes in UTF-8), \<open>o de Atividades\<close>.\<close>

definition gestao_de_atividades :: string where
  "gestao_de_atividades = ''Gest'' @ [char_of (0xC3 :: nat), char_of (0xA3 :: nat)] @ ''o de Atividades''"

definition apostrophe :: char where
  "apostrophe = char_of (0x27 :: nat)"

text \<open>\<open>str\<close> of an integer, for the sprint identifier in the query.\<close>

fun str_nat :: "nat \<Rightarrow> string" where
  "str_nat n = (if n < 10 then [digit_char n] else str_nat (n div 10) @ [digit_char n])"

declare str_nat.simps [simp del]

definition str_int :: "int \<Rightarrow> string" where
  "str_int i = (if i < 0 then ''-'' @ str_nat (nat (- i)) else str_nat (nat i))"

text \<open>The two query strings of the source, as its f-string and its literal spell them.\<close>

definition sprint_query :: "int \<Rightarrow> string" where
  "sprint_query sprint_id =
     ''project = '' @ [apostrophe] @ gestao_de_atividades @ [apostrophe] @
     '' AND sprint = '' @ str_int sprint_id @ '' ORDER BY created DESC''"

definition no_sprint_query :: string where
  "no_sprint_query =
     ''project = '' @ [apostrophe] @ gestao_de_atividades @ [apostrophe] @
     '' AND sprint is EMPTY ORDER BY created DESC''"

text \<open>
  The dict \<open>issue_info\<close> of one issue; \<open>sprint\<close> is the value of its \<open>Sprint\<close>
  key (the sprint's name, or \<open>No Sprint\<close> in the second loop).
\<close>

definition issue_info :: "pyval \<Rightarrow> issue \<Rightarrow> row" where
  "issue_info sprint i =
     [(''Issue Key'', PStr (key i)),
      (''Summary'', summary i),
      (''Priority'', getattr (priority_name i) (PStr ''No Priority'')),
      (''Labels'', PList (labels i)),
      (''Assignee'', (case assignee_displayName i of
                        Some n \<Rightarrow> n
                      | None \<Rightarrow> PStr ''Unassigned'')),
      (''Status'', status_name i),
      (''Creator'', creator_displayName i),
      (''Custom Field 10160'', getattr (customfield_10160 i) (PStr ''N/A'')),
      (''Custom Field 10163'', getattr (customfield_10163 i) (PStr ''N/A'')),
      (''Custom Field 10175'', getattr (customfield_10175 i) (PStr ''N/A'')),
      (''Time Spent'', (if truthy (timespent i) then timespent i else PStr ''No Time Spent'')),
      (''Project'', project_name i),
      (''Created'', created i),
      (''Updated'', updated i),
      (''Description'', (if truthy (description i) then description i else PStr ''No Description'')),
      (''Sprint'', sprint),
      (''E-mail Solicitante'', getattr (customfield_10090 i) (PStr ''N/A'')),
      (''Nome do Solicitante'', getattr (customfield_10089 i) (PStr ''N/A'')),
      (''Start Date'', getattr (customfield_10015 i) (PStr ''N/A'')),
      (''End Data'', getattr (customfield_10152 i) (PStr ''N/A'')),
      (''Parent'', getattr (parent i) (PStr ''N/A''))]"

text \<open>The six keys a time-log entry adds, and what stands in for them without one.\<close>

definition worklog_fields :: "worklog \<Rightarrow> row" where
  "worklog_fields w =
     [(''Worklog Author'', getattr (w_author_displayName w) (PStr ''No Author'')),
      (''Worklog Comment'', getattr (w_comment w) (PStr ''No Comment'')),
      (''Worklog Created'', getattr (w_created w) (PStr ''N/A'')),
      (''Worklog Started'', getattr (w_started w) (PStr ''N/A'')),
      (''Worklog Time Spent'', getattr (w_timeSpent w) (PStr ''N/A'')),
      (''Worklog Time Spent Seconds'', getattr (w_timeSpentSeconds w) (PInt 0))]"

definition no_worklog_fields :: row where
  "no_worklog_fields =
     [(''Worklog Author'', PStr ''No Worklog''),
      (''Worklog Comment'', PStr ''No Worklog''),
      (''Worklog Created'', PStr ''N/A''),
      (''Worklog Started'', PStr ''N/A''),
      (''Worklog Time Spent'', PStr ''N/A''),
      (''Worklog Time Spent Seconds'', PInt 0)]"

text \<open>\<open>{**issue_info, k: v, ...}\<close>: the dict, then each further key assigned in turn.\<close>

definition dict_merge :: "row \<Rightarrow> row \<Rightarrow> row" where
  "dict_merge d extra = foldl (\<lambda>acc (k, v). dict_set k v acc) d extra"

text \<open>
  The body of \<open>for issue in issues\<close>: the rows one issue appends to
  \<open>combined_data\<close>.
\<close>

definition issue_rows :: "pyval \<Rightarrow> issue \<Rightarrow> row list" where
  "issue_rows sprint i =
     (if worklogs i \<noteq> []
      then map (\<lambda>w. dict_merge (issue_info sprint i) (worklog_fields w)) (worklogs i)
      else [dict_merge (issue_info sprint i) no_worklog_fields])"

text \<open>
  The client: \<open>jira.sprints(board_id, state=...)\<close> and
  \<open>jira.search_issues(jql, startAt=..., maxResults=...)\<close>, each returning its list or
  raising. Every call of \<open>search_issues\<close> is recorded with its answer, in order.
\<close>

record jira =
  sprints :: "string \<Rightarrow> string \<Rightarrow> error + sprint list"
  search_issues :: "string \<Rightarrow> nat \<Rightarrow> nat \<Rightarrow> error + issue list"

type_synonym request = "string \<times> nat \<times> nat \<times> (error + issue list)"

text \<open>
  The \<open>while True\<close> loop, which the source spells out twice with the same body: ask for
  the page at \<open>start_at\<close>, append the rows of its issues, advance by \<open>max_results\<close>,
  and stop after a page shorter than \<open>max_results\<close>. The loop need not end (a client
  that always answers with a full page keeps it running): the result is \<open>None\<close> then.
\<close>

partial_function (option) paginate ::
  "jira \<Rightarrow> string \<Rightarrow> pyval \<Rightarrow> nat \<Rightarrow> nat \<Rightarrow> row list \<Rightarrow> request list \<Rightarrow>
     ((error + row list) \<times> request list) option" where
  "paginate client jql_query sprint max_results start_at combined_data log =
     (case search_issues client jql_query start_at max_results of
        Inl e \<Rightarrow> Some (Inl e, log @ [(jql_query, start_at, max_results, Inl e)])
      | Inr issues \<Rightarrow>
          if length issues < max_results
          then Some (Inr (combined_data @ concat (map (issue_rows sprint) issues)),
                     log @ [(jql_query, start_at, max_results, Inr issues)])
          else paginate client jql_query sprint max_results (start_at + max_results)
                 (combined_data @ concat (map (issue_rows sprint) issues))
                 (log @ [(jql_query, start_at, max_results, Inr issues)]))"

text \<open>
  The \<open>for sprint_id, sprint_name in sprint_map.items()\<close> loop. The local
  \<open>max_results\<close> is assigned in its body only: it is threaded through as an option,
  \<open>None\<close> while unbound.
\<close>

fun sprint_loop ::
  "jira \<Rightarrow> (int \<times> string) list \<Rightarrow> nat option \<Rightarrow> row list \<Rightarrow> request list \<Rightarrow>
     ((error + (row list \<times> nat option)) \<times> request list) option" where
  "sprint_loop client [] max_results combined_data log =
     Some (Inr (combined_data, max_results), log)"
| "sprint_loop client ((sprint_id, sprint_name) # rest) max_results combined_data log =
     (case paginate client (sprint_query sprint_id) (PStr sprint_name) 100 0 combined_data log of
        None \<Rightarrow> None
      | Some (Inl e, log') \<Rightarrow> Some (Inl e, log')
      | Some (Inr combined_data', log') \<Rightarrow>
          sprint_loop client rest (Some 100) combined_data' log')"

text \<open>
  The surroundings: the environment variables as \<open>os.getenv\<close> sees them once
  \<open>load_dotenv\<close> has run, and the constructor \<open>JIRA(server=..., basic_auth=...)\<close>.
\<close>

record world =
  getenv :: "string \<Rightarrow> string option"
  JIRA :: "string \<Rightarrow> string \<times> string \<Rightarrow> error + jira"

text \<open>\<open>x or os.getenv(name)\<close>, and \<open>not x\<close>, on an optional string.\<close>

definition or_getenv :: "string option \<Rightarrow> string option \<Rightarrow> string option" where
  "or_getenv x env = (case x of None \<Rightarrow> env | Some s \<Rightarrow> if s = [] then env else Some s)"

definition falsy :: "string option \<Rightarrow> bool" where
  "falsy x = (case x of None \<Rightarrow> True | Some s \<Rightarrow> s = [])"

text \<open>\<open>{sprint.id: sprint.name for sprint in sprints}\<close>\<close>

definition sprint_map_of :: "sprint list \<Rightarrow> (int \<times> string) list" where
  "sprint_map_of sprint_list = foldl (\<lambda>m s. dict_set (sid s) (sname s) m) [] sprint_list"

text \<open>
  The head of \<open>jira_extraction\<close>: with any of the four parameters \<open>None\<close>, each
  falls back on its environment variable; then none may be missing or empty.
\<close>

definition connection_parameters ::
  "world \<Rightarrow> string option \<Rightarrow> string option \<Rightarrow> string option \<Rightarrow> string option \<Rightarrow>
     error + (string \<times> string \<times> string \<times> string)" where
  "connection_parameters w jira_server0 email0 api_token0 board_id0 =
     (let fallback = (jira_server0 = None \<or> email0 = None \<or> api_token0 = None \<or> board_id0 = None);
          jira_server = (if fallback then or_getenv jira_server0 (getenv w ''JIRA_SERVER'') else jira_server0);
          email = (if fallback then or_getenv email0 (getenv w ''JIRA_EMAIL'') else email0);
          api_token = (if fallback then or_getenv api_token0 (getenv w ''JIRA_API_TOKEN'') else api_token0);
          board_id = (if fallback then or_getenv board_id0 (getenv w ''JIRA_BOARD_ID'') else board_id0)
      in case (jira_server, email, api_token, board_id) of
           (Some s, Some e, Some t, Some b) \<Rightarrow>
             if s = [] \<or> e = [] \<or> t = [] \<or> b = [] then Inl ConfigError else Inr (s, e, t, b)
         | _ \<Rightarrow> Inl ConfigError)"

text \<open>
  The rest of it, from the list of sprints on. The second page loop reads
  \<open>max_results\<close>, which only the body of the sprint loop assigns: with no sprint it is
  unbound, and evaluating the arguments of the first request raises.
\<close>

definition extract_board ::
  "jira \<Rightarrow> string \<Rightarrow> ((error + dataframe) \<times> request list) option" where
  "extract_board client board_id =
     (case sprints client board_id ''active,closed'' of
        Inl e \<Rightarrow> Some (Inl e, [])
      | Inr sprint_list \<Rightarrow>
          (case sprint_loop client (sprint_map_of sprint_list) None [] [] of
             None \<Rightarrow> None
           | Some (Inl e, log) \<Rightarrow> Some (Inl e, log)
           | Some (Inr (combined_data, None), log) \<Rightarrow>
               Some (Inl (UnboundLocalError ''max_results''), log)
           | Some (Inr (combined_data, Some max_results), log) \<Rightarrow>
               (case paginate client no_sprint_query (PStr ''No Sprint'') max_results 0
                       combined_data log of
                  None \<Rightarrow> None
                | Some (Inl e, log') \<Rightarrow> Some (Inl e, log')
                | Some (Inr combined_data', log') \<Rightarrow>
                    Some (Inr (DataFrame combined_data'), log'))))"

text \<open>
  \<open>jira_extraction\<close>. The two decorators and the \<open>except\<close> clause write to the
  diary and raise what they caught again, so they change no result. The result is the
  frame or the exception, with the requests made; \<open>None\<close> when a page loop never ends.
\<close>

definition jira_extraction ::
  "world \<Rightarrow> string option \<Rightarrow> string option \<Rightarrow> string option \<Rightarrow> string option \<Rightarrow> string \<Rightarrow>
     ((error + dataframe) \<times> request list) option" where
  "jira_extraction w jira_server email api_token board_id project_key =
     (case connection_parameters w jira_server email api_token board_id of
        Inl e \<Rightarrow> Some (Inl e, [])
      | Inr (server, user, token, board) \<Rightarrow>
          (case JIRA w server (user, token) of
             Inl e \<Rightarrow> Some (Inl e, [])
           | Inr client \<Rightarrow> extract_board client board))"



text \<open>
  A client over a project of \<open>T\<close> issues, all alike, that answers every query page
  by page: the page at \<open>start_at\<close> holds \<open>min max_results (T - start_at)\<close> issues.
\<close>

definition paged_client :: "issue \<Rightarrow> nat \<Rightarrow> jira" where
  "paged_client i T =
     \<lparr>sprints = (\<lambda>board_id state. Inr []),
      search_issues = (\<lambda>jql_query start_at max_results.
                         Inr (replicate (min max_results (T - start_at)) i))\<rparr>"

text \<open>The request number \<open>k\<close> of a page loop over that client, with its answer.\<close>

definition page_request :: "issue \<Rightarrow> nat \<Rightarrow> string \<Rightarrow> nat \<Rightarrow> nat \<Rightarrow> nat \<Rightarrow> request" where
  "page_request i T q m st k =
     (q, st + k * m, m, Inr (replicate (min m (T - (st + k * m))) i))"

text \<open>\<open>a / b\<close> rounded up.\<close>

definition ceil_div :: "nat \<Rightarrow> nat \<Rightarrow> nat" where
  "ceil_div a b = (a + b - 1) div b"

section \<open>The transformer\<close>

text \<open>
  A frame is a mutable object: the transformer is given a reference to one and assigns to
  its columns. The heap maps references to the frames they hold.
\<close>

type_synonym ref = nat

type_synonym heap = "ref \<Rightarrow> dataframe"

fun index_of :: "'a \<Rightarrow> 'a list \<Rightarrow> nat option" where
  "index_of x [] = None"
| "index_of x (y # ys) = (if x = y then Some 0 else map_option Suc (index_of x ys))"

text \<open>\<open>df[col]\<close>: the cells of the column, top to bottom.\<close>

definition getitem :: "dataframe \<Rightarrow> string \<Rightarrow> error + pyval list" where
  "getitem df col =
     (case index_of col (columns df) of
        None \<Rightarrow> Inl (KeyError col)
      | Some j \<Rightarrow> Inr (map (\<lambda>r. r ! j) (rows df)))"

text \<open>
  \<open>series.apply(f)\<close>: \<open>f\<close> on each cell in turn; the first exception ends it, and
  no new series is made.
\<close>

fun apply_series :: "(pyval \<Rightarrow> error + pyval) \<Rightarrow> pyval list \<Rightarrow> error + pyval list" where
  "apply_series f [] = Inr []"
| "apply_series f (v # vs) =
     (case f v of
        Inl e \<Rightarrow> Inl e
      | Inr v' \<Rightarrow> (case apply_series f vs of Inl e \<Rightarrow> Inl e | Inr vs' \<Rightarrow> Inr (v' # vs')))"

text \<open>
  \<open>df[col] = series\<close>, for a series over the frame's own index: the cells of an
  existing column are replaced, a new column goes last.
\<close>

definition setitem :: "dataframe \<Rightarrow> string \<Rightarrow> pyval list \<Rightarrow> dataframe" where
  "setitem df col series =
     (case index_of col (columns df) of
        Some j \<Rightarrow> df\<lparr>rows := map (\<lambda>(r, v). r[j := v]) (zip (rows df) series)\<rparr>
      | None \<Rightarrow> df\<lparr>columns := columns df @ [col],
                    rows := map (\<lambda>(r, v). r @ [v]) (zip (rows df) series)\<rparr>)"

definition date_columns :: "string list" where
  "date_columns = [''Worklog Created'', ''Worklog Started'']"

text \<open>The second loop of \<open>transform_extracted_data\<close>: each date column is read, reformatted and assigned back.\<close>

fun reformat_columns :: "string list \<Rightarrow> heap \<Rightarrow> ref \<Rightarrow> (error + unit) \<times> heap" where
  "reformat_columns [] h extracted_data = (Inr (), h)"
| "reformat_columns (col # cols) h extracted_data =
     (case getitem (h extracted_data) col of
        Inl e \<Rightarrow> (Inl e, h)
      | Inr series \<Rightarrow>
          (case apply_series reformat_date series of
             Inl e \<Rightarrow> (Inl e, h)
           | Inr series' \<Rightarrow>
               reformat_columns cols
                 (h(extracted_data := setitem (h extracted_data) col series')) extracted_data))"

text \<open>
  \<open>transform_extracted_data\<close>: the first loop raises for the first date column the
  frame lacks; the second rewrites the columns; the reference it was given is returned.
  The result comes with the heap as the call leaves it.
\<close>

definition transform_extracted_data :: "heap \<Rightarrow> ref \<Rightarrow> (error + ref) \<times> heap" where
  "transform_extracted_data h extracted_data =
     (case find (\<lambda>col. col \<notin> set (columns (h extracted_data))) date_columns of
        Some col \<Rightarrow> (Inl (SchemaError col), h)
      | None \<Rightarrow>
          (case reformat_columns date_columns h extracted_data of
             (Inl e, h') \<Rightarrow> (Inl e, h')
           | (Inr u, h') \<Rightarrow> (Inr extracted_data, h')))"

text \<open>Every row holds one cell per column.\<close>

definition aligned :: "dataframe \<Rightarrow> bool" where
  "aligned df = list_all (\<lambda>r. length r = length (columns df)) (rows df)"

section \<open>The loader\<close>

























section \<open>A small board\<close>

text \<open>
  One closed sprint holding one issue with two time-log entries, and no issue outside a
  sprint; every parameter is given, so the environment is not read.
\<close>

definition example_worklog :: "string \<Rightarrow> worklog" where
  "example_worklog t =
     \<lparr>w_author_displayName = Some (PStr ''Ana''), w_comment = None,
      w_created = Some (PStr t), w_started = Some (PStr t),
      w_timeSpent = Some (PStr ''1h''), w_timeSpentSeconds = Some (PInt 3600)\<rparr>"

definition example_issue :: "worklog list \<Rightarrow> issue" where
  "example_issue ws =
     \<lparr>key = ''IW-696'', summary = PStr ''Extract'', priority_name = None, labels = [''etl''],
      assignee_displayName = None, status_name = PStr ''Done'', creator_displayName = PStr ''Ana'',
      customfield_10160 = None, customfield_10163 = Some PNone, customfield_10175 = None,
      timespent = PInt 7200, project_name = PStr ''IW'',
      created = PStr ''2024-03-01T09:00:00.000000+0000'',
      updated = PStr ''2024-03-05T14:30:00.000000+0000'',
      description = PNone,
      customfield_10090 = None, customfield_10089 = None, customfield_10015 = None,
      customfield_10152 = None, parent = None, worklogs = ws\<rparr>"

definition example_issue2 :: issue where
  "example_issue2 =
     example_issue [example_worklog ''2024-03-05T14:30:00.000000+0000'',
                    example_worklog ''2024-03-06T08:00:00.000000+0000'']"

definition example_client :: jira where
  "example_client =
     \<lparr>sprints = (\<lambda>board_id state. Inr [\<lparr>sid = 7, sname = ''Sprint 7''\<rparr>]),
      search_issues = (\<lambda>jql_query start_at max_results.
         if jql_query = sprint_query 7 \<and> start_at = 0 then Inr [example_issue2] else Inr [])\<rparr>"

definition example_world :: world where
  "example_world = \<lparr>getenv = (\<lambda>name. None), JIRA = (\<lambda>server auth. Inr example_client)\<rparr>"

definition example_run :: "string \<Rightarrow> ((error + dataframe) \<times> request list) option" where
  "example_run project_key =
     jira_extraction example_world (Some ''https://jira.example'') (Some ''ana@example'')
       (Some ''token'') (Some ''12'') project_key"

text \<open>The keys of a row, in the order the extractor assigns them.\<close>

definition flat_columns :: "string list" where
  "flat_columns =
     [''Issue Key'', ''Summary'', ''Priority'', ''Labels'', ''Assignee'', ''Status'', ''Creator'',
      ''Custom Field 10160'', ''Custom Field 10163'', ''Custom Field 10175'', ''Time Spent'',
      ''Project'', ''Created'', ''Updated'', ''Description'', ''Sprint'', ''E-mail Solicitante'',
      ''Nome do Solicitante'', ''Start Date'', ''End Data'', ''Parent'', ''Worklog Author'',
      ''Worklog Comment'', ''Worklog Created'', ''Worklog Started'', ''Worklog Time Spent'',
      ''Worklog Time Spent Seconds'']"

text \<open>The frame of the small board, its cells, and a heap that holds it.\<close>

definition example_frame :: dataframe where
  "example_frame = DataFrame (issue_rows (PStr ''Sprint 7'') example_issue2)"

definition example_heap :: heap where
  "example_heap = (\<lambda>r. example_frame)"

definition example_cells :: "string \<Rightarrow> pyval list" where
  "example_cells t =
     map snd (issue_info (PStr ''Sprint 7'') example_issue2 @ worklog_fields (example_worklog t))"

text \<open>A frame without the \<open>Worklog Started\<close> column, and the frame of an issue without time-log entries.\<close>

definition example_frame_no_started :: dataframe where
  "example_frame_no_started =
     \<lparr>columns = [''Issue Key'', ''Worklog Created''],
      rows = [[PStr ''IW-696'', PStr ''2024-03-05T14:30:00.000000+0000'']]\<rparr>"

definition example_frame_no_worklog :: dataframe where
  "example_frame_no_worklog = DataFrame (issue_rows (PStr ''No Sprint'') (example_issue []))"

text \<open>A board with no sprint, and one issue outside any sprint.\<close>

definition example_world_no_sprints :: world where
  "example_world_no_sprints =
     \<lparr>getenv = (\<lambda>name. None), JIRA = (\<lambda>server auth. Inr (paged_client example_issue2 1))\<rparr>"

section \<open>Evaluation lemmas for the matcher\<close>

lemmas rx_defs = rx_Y_def rx_m_def rx_d_def rx_H_def rx_M_def rx_S_def rx_f_def rx_z_def
  Opt_def digit_def format_regex_def

lemmas dt_defs = py_int_def parse_z_def make_datetime_def strftime_def pad2_def pad4_def
  digit_char_def digit_val_def days_in_month_def is_leap_def is_digit_def

lemma rmatch_example:
  "rmatch format_regex ''2024-03-05T14:30:00.000000+0000'' [] None =
     Some ([''2024'', ''03'', ''05'', ''14'', ''30'', ''00'', ''000000'', ''+0000''], [])"
  by (simp add: rx_defs)

lemma strptime_example:
  "strptime ''2024-03-05T14:30:00.000000+0000'' =
     Inr \<lparr>year = 2024, month = 3, day = 5, hour = 14, minute = 30, second = 0,
          microsecond = 0, utcoffset = 0\<rparr>"
  by (simp add: strptime_def rmatch_example dt_defs)




section \<open>The rows of an issue\<close>

lemma dict_merge_worklog:
  "dict_merge (issue_info s i) (worklog_fields w) = issue_info s i @ worklog_fields w"
  by (simp add: dict_merge_def issue_info_def worklog_fields_def)

lemma dict_merge_no_worklog:
  "dict_merge (issue_info s i) no_worklog_fields = issue_info s i @ no_worklog_fields"
  by (simp add: dict_merge_def issue_info_def no_worklog_fields_def)

lemma issue_rows_no_worklog:
  "worklogs i = [] \<Longrightarrow> issue_rows s i = [issue_info s i @ no_worklog_fields]"
  by (simp add: issue_rows_def dict_merge_no_worklog)

lemma issue_rows_worklogs:
  "worklogs i \<noteq> [] \<Longrightarrow>
     issue_rows s i = map (\<lambda>w. issue_info s i @ worklog_fields w) (worklogs i)"
  by (simp add: issue_rows_def dict_merge_worklog)


lemma length_issue_rows: "length (issue_rows s i) = max 1 (length (worklogs i))"
  by (cases "worklogs i") (simp_all add: issue_rows_def)




section \<open>The page loop\<close>






text \<open>Over the paged client the loop ends, and these are its requests.\<close>

lemma upt_shift: "[0..<Suc (Suc n)] = 0 # map Suc [0..<Suc n]"
  by (simp only: map_Suc_upt upt_conv_Cons [of 0 "Suc (Suc n)"] zero_less_Suc)

lemma paginate_paged:
  assumes m: "0 < m"
  shows "paginate (paged_client i T) q s m st cd log =
           Some (Inr (cd @ concat (map (issue_rows s) (replicate (T - st) i))),
                 log @ map (page_request i T q m st) [0..<(T - st) div m + 1])"
proof (induction "T - st" arbitrary: st cd log rule: less_induct)
  case less
  have ans: "search_issues (paged_client i T) q st m = Inr (replicate (min m (T - st)) i)"
    by (simp add: paged_client_def)
  show ?case
  proof (cases "T - st < m")
    case True
    then have "(T - st) div m = 0" by simp
    with True show ?thesis
      by (subst paginate.simps) (simp add: ans page_request_def min_def)
  next
    case False
    then have ge: "m \<le> T - st" by simp
    with m have lt: "T - (st + m) < T - st" by simp
    from ge m have d: "(T - st) div m = Suc ((T - (st + m)) div m)"
      by (simp add: le_div_geq)
    have r: "replicate (T - st) i = replicate m i @ replicate (T - (st + m)) i"
      using ge by (simp add: replicate_add [symmetric])
    have p: "map (page_request i T q m st) [0..<Suc (Suc ((T - (st + m)) div m))] =
             page_request i T q m st 0 #
               map (page_request i T q m (st + m)) [0..<Suc ((T - (st + m)) div m)]"
      by (simp only: upt_shift list.map map_map) (simp add: page_request_def comp_def add.assoc)
    have "paginate (paged_client i T) q s m st cd log =
          paginate (paged_client i T) q s m (st + m)
            (cd @ concat (map (issue_rows s) (replicate m i)))
            (log @ [page_request i T q m st 0])"
      using False ge by (subst paginate.simps) (simp add: ans page_request_def min_def)
    also have "\<dots> = Some (Inr ((cd @ concat (map (issue_rows s) (replicate m i))) @
                              concat (map (issue_rows s) (replicate (T - (st + m)) i))),
                         (log @ [page_request i T q m st 0]) @
                           map (page_request i T q m (st + m)) [0..<(T - (st + m)) div m + 1])"
      by (rule less.hyps [OF lt])
    finally show ?thesis
      by (simp add: d r p del: upt_Suc)
  qed
qed

text \<open>Rounding up against the page size.\<close>

lemma small_ceiling: "r < 100 \<Longrightarrow> (r + 99) div 100 = (if r = 0 then 0 else (1::nat))"
  by (simp add: div_eq_0_iff div_nat_eqI)

lemma ceil_div_100: "ceil_div T 100 = (if T mod 100 = 0 then T div 100 else T div 100 + 1)"
proof -
  have "T + 99 = (T mod 100 + 99) + T div 100 * 100" by simp
  then have "(T + 99) div 100 = (T mod 100 + 99) div 100 + T div 100"
    by (simp only: div_mult_self1 [of 100 "T mod 100 + 99" "T div 100"] div_mult_self3
          zero_neq_numeral not_False_eq_True)
  moreover have "(T mod 100 + 99) div 100 = (if T mod 100 = 0 then 0 else 1)"
    by (rule small_ceiling) simp
  ultimately show ?thesis by (simp add: ceil_div_def add.commute)
qed

section \<open>The small board, run\<close>

lemma sprint_query_7: "sprint_query 7 \<noteq> no_sprint_query"
  by (simp add: sprint_query_def no_sprint_query_def)

lemma example_run_eq:
  "example_run pk =
     Some (Inr (DataFrame (issue_rows (PStr ''Sprint 7'') example_issue2)),
           [(sprint_query 7, 0, 100, Inr [example_issue2]), (no_sprint_query, 0, 100, Inr [])])"
  by (simp add: example_run_def jira_extraction_def connection_parameters_def example_world_def
        extract_board_def example_client_def sprint_map_of_def paginate.simps
        sprint_query_7 [symmetric])

section \<open>What the transformer keeps\<close>

lemma index_of_Some: "index_of x xs = Some j \<Longrightarrow> j < length xs \<and> xs ! j = x"
  by (induction xs arbitrary: j) (auto split: if_splits)

lemma index_of_None: "index_of x xs = None \<longleftrightarrow> x \<notin> set xs"
  by (induction xs) auto

lemma apply_series_Inr:
  "apply_series f vs = Inr vs' \<Longrightarrow>
     length vs' = length vs \<and> (\<forall>n<length vs. f (vs ! n) = Inr (vs' ! n))"
proof (induction vs arbitrary: vs')
  case Nil
  then show ?case by simp
next
  case (Cons v vs)
  then show ?case
    by (auto split: sum.splits simp: nth_Cons split: nat.splits)
qed

lemma apply_series_Inl:
  "apply_series f vs = Inl e \<Longrightarrow> \<exists>v\<in>set vs. f v = Inl e"
  by (induction vs) (auto split: sum.splits)

lemma py_int_error: "py_int s = Inl e \<Longrightarrow> e = ParseError"
  by (auto simp: py_int_def Let_def split: if_splits)

lemma parse_z_error: "parse_z z = Inl e \<Longrightarrow> e = ParseError"
  by (auto simp: parse_z_def Let_def split: if_splits sum.splits dest: py_int_error)

lemma make_datetime_error: "make_datetime y mo d h mi s us off = Inl e \<Longrightarrow> e = ParseError"
  by (auto simp: make_datetime_def split: if_splits)

lemma strptime_error: "strptime s = Inl e \<Longrightarrow> e = ParseError"
  unfolding strptime_def
  by (auto split: option.splits prod.splits if_splits list.splits sum.splits
           dest: py_int_error parse_z_error make_datetime_error)

lemma reformat_date_error:
  "reformat_date v = Inl e \<Longrightarrow> e = ParseError \<or> e = TypeError \<or> e = ValueError"
  by (cases v) (auto split: if_splits sum.splits dest: strptime_error)


lemma getitem_Inr:
  "getitem df col = Inr vs \<longleftrightarrow>
     (\<exists>j. index_of col (columns df) = Some j \<and> vs = map (\<lambda>r. r ! j) (rows df))"
  by (auto simp: getitem_def split: option.splits)

lemma setitem_columns:
  "index_of col (columns df) = Some j \<Longrightarrow> columns (setitem df col vs) = columns df"
  by (simp add: setitem_def)

lemma setitem_rows:
  "index_of col (columns df) = Some j \<Longrightarrow> length vs = length (rows df) \<Longrightarrow>
     length (rows (setitem df col vs)) = length (rows df) \<and>
     (\<forall>n<length (rows df). rows (setitem df col vs) ! n = (rows df ! n)[j := vs ! n])"
  by (simp add: setitem_def)

text \<open>One column reformatted and assigned: what it does to the frame.\<close>

lemma reformat_step:
  assumes g: "getitem df col = Inr vs" and ap: "apply_series reformat_date vs = Inr vs'"
  shows "columns (setitem df col vs') = columns df"
    and "length (rows (setitem df col vs')) = length (rows df)"
    and "\<And>n j. n < length (rows df) \<Longrightarrow> columns df ! j \<noteq> col \<Longrightarrow>
           rows (setitem df col vs') ! n ! j = rows df ! n ! j"
    and "\<And>n j. n < length (rows df) \<Longrightarrow> rows df ! n ! j = PStr ''N/A'' \<Longrightarrow>
           rows (setitem df col vs') ! n ! j = PStr ''N/A''"
proof -
  from g obtain j0 where j0: "index_of col (columns df) = Some j0"
    and vs: "vs = map (\<lambda>r. r ! j0) (rows df)"
    by (auto simp: getitem_Inr)
  from apply_series_Inr [OF ap] vs have len: "length vs' = length (rows df)"
    and f: "\<And>n. n < length (rows df) \<Longrightarrow> reformat_date (rows df ! n ! j0) = Inr (vs' ! n)"
    by auto
  from index_of_Some [OF j0] have c0: "columns df ! j0 = col" by simp
  note r = setitem_rows [OF j0 len]
  show "columns (setitem df col vs') = columns df" by (rule setitem_columns [OF j0])
  show "length (rows (setitem df col vs')) = length (rows df)" using r by simp
  show "rows (setitem df col vs') ! n ! j = rows df ! n ! j"
    if n: "n < length (rows df)" and ne: "columns df ! j \<noteq> col" for n j
  proof -
    from ne c0 have "j \<noteq> j0" by auto
    with n r show ?thesis by simp
  qed
  show "rows (setitem df col vs') ! n ! j = PStr ''N/A''"
    if n: "n < length (rows df)" and s: "rows df ! n ! j = PStr ''N/A''" for n j
  proof (cases "j = j0")
    case False
    with n s r show ?thesis by simp
  next
    case True
    with f [OF n] s have "vs' ! n = rows df ! n ! j0" by simp
    then have "(rows df ! n)[j0 := vs' ! n] = rows df ! n" by simp
    with n s r show ?thesis by simp
  qed
qed

lemma reformat_columns_inv:
  "reformat_columns cols h a = (res, h') \<Longrightarrow>
     columns (h' a) = columns (h a) \<and>
     length (rows (h' a)) = length (rows (h a)) \<and>
     (\<forall>b. b \<noteq> a \<longrightarrow> h' b = h b) \<and>
     (\<forall>n<length (rows (h a)). \<forall>j<length (columns (h a)).
        columns (h a) ! j \<notin> set cols \<longrightarrow> rows (h' a) ! n ! j = rows (h a) ! n ! j) \<and>
     (\<forall>n<length (rows (h a)). \<forall>j.
        rows (h a) ! n ! j = PStr ''N/A'' \<longrightarrow> rows (h' a) ! n ! j = PStr ''N/A'')"
proof (induction cols arbitrary: h)
  case Nil
  then show ?case by simp
next
  case (Cons col cols)
  show ?case
  proof (cases "getitem (h a) col")
    case (Inl e)
    with Cons.prems show ?thesis by simp
  next
    case g: (Inr vs)
    show ?thesis
    proof (cases "apply_series reformat_date vs")
      case (Inl e)
      with g Cons.prems show ?thesis by simp
    next
      case ap: (Inr vs')
      let ?h1 = "h(a := setitem (h a) col vs')"
      from g ap Cons.prems have "reformat_columns cols ?h1 a = (res, h')" by simp
      note ih = Cons.IH [OF this]
      note st = reformat_step [OF g ap]
      from ih st show ?thesis by (auto simp: fun_upd_def)
    qed
  qed
qed


lemma reformat_columns_error:
  "reformat_columns cols h a = (Inl e, h') \<Longrightarrow> e \<noteq> SchemaError c"
proof (induction cols arbitrary: h)
  case Nil
  then show ?case by simp
next
  case (Cons col cols)
  show ?case
  proof (cases "getitem (h a) col")
    case (Inl e')
    with Cons.prems show ?thesis by (auto simp: getitem_def split: option.splits)
  next
    case g: (Inr vs)
    show ?thesis
    proof (cases "apply_series reformat_date vs")
      case (Inl e')
      with g Cons.prems have "e = e'" by simp
      with Inl apply_series_Inl [of reformat_date vs e] reformat_date_error
      show ?thesis by auto
    next
      case ap: (Inr vs')
      with g Cons.prems Cons.IH show ?thesis by simp
    qed
  qed
qed

lemma find_missing:
  "find (\<lambda>col. col \<notin> set cols) date_columns = None \<longleftrightarrow>
     ''Worklog Created'' \<in> set cols \<and> ''Worklog Started'' \<in> set cols"
  by (simp add: date_columns_def)

lemma transform_inv:
  assumes "transform_extracted_data h a = (res, h')"
  shows "columns (h' a) = columns (h a) \<and>
     length (rows (h' a)) = length (rows (h a)) \<and>
     (\<forall>b. b \<noteq> a \<longrightarrow> h' b = h b) \<and>
     (\<forall>n<length (rows (h a)). \<forall>j<length (columns (h a)).
        columns (h a) ! j \<notin> set date_columns \<longrightarrow> rows (h' a) ! n ! j = rows (h a) ! n ! j) \<and>
     (\<forall>n<length (rows (h a)). \<forall>j.
        rows (h a) ! n ! j = PStr ''N/A'' \<longrightarrow> rows (h' a) ! n ! j = PStr ''N/A'')"
proof (cases "find (\<lambda>col. col \<notin> set (columns (h a))) date_columns")
  case (Some col)
  with assms have "h' = h" by (simp add: transform_extracted_data_def)
  then show ?thesis by simp
next
  case None
  obtain r where r: "reformat_columns date_columns h a = (r, h')"
    using assms None
    by (cases "reformat_columns date_columns h a")
       (auto simp: transform_extracted_data_def split: sum.splits)
  from reformat_columns_inv [OF r] show ?thesis .
qed

lemma getitem_cong:
  assumes c: "columns df' = columns df" and l: "length (rows df') = length (rows df)"
    and cells: "\<forall>n<length (rows df). \<forall>j<length (columns df).
        columns df ! j \<notin> set date_columns \<longrightarrow> rows df' ! n ! j = rows df ! n ! j"
    and col: "col \<notin> set date_columns"
  shows "getitem df' col = getitem df col"
proof (cases "index_of col (columns df)")
  case None
  with c show ?thesis by (simp add: getitem_def)
next
  case (Some j)
  from index_of_Some [OF Some] col have j: "j < length (columns df)" "columns df ! j \<notin> set date_columns"
    by auto
  have "map (\<lambda>r. r ! j) (rows df') = map (\<lambda>r. r ! j) (rows df)"
    using l cells j by (intro nth_equalityI) auto
  with Some c show ?thesis by (simp add: getitem_def)
qed

section \<open>Assigning a column and reading it back\<close>

lemma index_of_mem: "index_of x xs = Some j \<Longrightarrow> x \<in> set xs"
  using index_of_None [of x xs] by auto

lemma apply_series_id: "\<forall>v\<in>set vs. f v = Inr v \<Longrightarrow> apply_series f vs = Inr vs"
  by (induction vs) simp_all

lemma setitem_getitem_id: "getitem df col = Inr vs \<Longrightarrow> setitem df col vs = df"
proof -
  assume "getitem df col = Inr vs"
  then obtain j where j: "index_of col (columns df) = Some j"
    and vs: "vs = map (\<lambda>r. r ! j) (rows df)"
    by (auto simp: getitem_Inr)
  have "map (\<lambda>(r, v). r[j := v]) (zip (rows df) (map (\<lambda>r. r ! j) (rows df))) = rows df"
    by (induction "rows df") (simp_all add: zip_map2 zip_same_conv_map comp_def)
  with j vs show ?thesis by (simp add: setitem_def)
qed

lemma aligned_setitem:
  assumes "aligned df" and j: "index_of col (columns df) = Some j"
  shows "aligned (setitem df col vs)"
proof -
  have "length r' = length (columns df)"
    if "r' \<in> set (map (\<lambda>(r, v). r[j := v]) (zip (rows df) vs))" for r'
  proof -
    from that obtain r v where "(r, v) \<in> set (zip (rows df) vs)" "r' = r[j := v]" by auto
    moreover then have "r \<in> set (rows df)" by (auto dest: set_zip_leftD)
    ultimately show ?thesis using assms(1) by (simp add: aligned_def list_all_iff)
  qed
  with j show ?thesis by (simp add: aligned_def list_all_iff setitem_def)
qed

lemma getitem_setitem_same:
  assumes al: "aligned df" and j: "index_of col (columns df) = Some j"
    and len: "length vs = length (rows df)"
  shows "getitem (setitem df col vs) col = Inr vs"
proof -
  from index_of_Some [OF j] have jl: "j < length (columns df)" by simp
  have "map (\<lambda>r. r ! j) (rows (setitem df col vs)) = vs"
  proof (rule nth_equalityI)
    show "length (map (\<lambda>r. r ! j) (rows (setitem df col vs))) = length vs"
      using setitem_rows [OF j len] len by simp
  next
    fix n assume "n < length (map (\<lambda>r. r ! j) (rows (setitem df col vs)))"
    then have n: "n < length (rows df)" using setitem_rows [OF j len] by simp
    then have "rows df ! n \<in> set (rows df)" by simp
    with al jl have "j < length (rows df ! n)" by (simp add: aligned_def list_all_iff)
    with n setitem_rows [OF j len] show "map (\<lambda>r. r ! j) (rows (setitem df col vs)) ! n = vs ! n"
      by simp
  qed
  with j show ?thesis by (simp add: getitem_def setitem_columns [OF j])
qed

lemma getitem_setitem_other:
  assumes j: "index_of col (columns df) = Some j" and len: "length vs = length (rows df)"
    and ne: "col' \<noteq> col"
  shows "getitem (setitem df col vs) col' = getitem df col'"
proof (cases "index_of col' (columns df)")
  case None
  then show ?thesis by (simp add: getitem_def setitem_columns [OF j])
next
  case (Some j')
  from index_of_Some [OF Some] index_of_Some [OF j] ne have "j' \<noteq> j" by auto
  then have "map (\<lambda>r. r ! j') (rows (setitem df col vs)) = map (\<lambda>r. r ! j') (rows df)"
    using setitem_rows [OF j len] by (intro nth_equalityI) auto
  with Some show ?thesis by (simp add: getitem_def setitem_columns [OF j])
qed

lemma transform_Inr:
  assumes "transform_extracted_data h a = (Inr a', h')"
  shows "\<exists>c1 n1 c2 n2.
     getitem (h a) ''Worklog Created'' = Inr c1 \<and> apply_series reformat_date c1 = Inr n1 \<and>
     getitem (setitem (h a) ''Worklog Created'' n1) ''Worklog Started'' = Inr c2 \<and>
     apply_series reformat_date c2 = Inr n2 \<and>
     a' = a \<and>
     h' = h(a := setitem (setitem (h a) ''Worklog Created'' n1) ''Worklog Started'' n2)"
  using assms
  by (auto simp: transform_extracted_data_def date_columns_def
           split: option.splits sum.splits prod.splits if_splits)

section \<open>The frame of the small board\<close>

lemma keys_issue_info: "map fst (issue_info s i) = take 21 flat_columns"
  by (simp add: issue_info_def flat_columns_def)

lemma keys_worklog: "map fst (worklog_fields w) = drop 21 flat_columns"
  "map fst no_worklog_fields = drop 21 flat_columns"
  by (simp_all add: worklog_fields_def no_worklog_fields_def flat_columns_def)

lemma distinct_flat_columns: "distinct flat_columns"
  by (simp add: flat_columns_def)

lemma keys_issue_rows: "r \<in> set (issue_rows s i) \<Longrightarrow> map fst r = flat_columns"
  by (cases "worklogs i = []")
     (auto simp: issue_rows_no_worklog issue_rows_worklogs keys_issue_info keys_worklog)

lemma record_keys_same:
  assumes "records \<noteq> []" and "\<forall>r\<in>set records. map fst r = ks"
  shows "record_keys records = ks"
proof -
  have same: "foldl (\<lambda>acc r. acc @ filter (\<lambda>k. k \<notin> set acc) (map fst r)) ks rs = ks"
    if "\<forall>r\<in>set rs. map fst r = ks" for rs
    using that by (induction rs) simp_all
  from assms show ?thesis
    by (cases records) (simp_all add: record_keys_def same)
qed

lemma cells_distinct_keys:
  "distinct (map fst r) \<Longrightarrow>
     map (\<lambda>c. case map_of r c of None \<Rightarrow> PNaN | Some v \<Rightarrow> v) (map fst r) = map snd r"
  by (induction r) (auto simp: image_iff)

lemma DataFrame_same_keys:
  assumes "records \<noteq> []" and "\<forall>r\<in>set records. map fst r = ks" and "distinct ks"
  shows "DataFrame records = \<lparr>columns = ks, rows = map (map snd) records\<rparr>"
proof -
  have "map (\<lambda>c. case map_of r c of None \<Rightarrow> PNaN | Some v \<Rightarrow> v) ks = map snd r"
    if "r \<in> set records" for r
    using that assms(2,3) cells_distinct_keys [of r] by auto
  with record_keys_same [OF assms(1,2)] show ?thesis
    by (simp add: DataFrame_def)
qed


lemma example_frame_eq:
  "example_frame =
     \<lparr>columns = flat_columns,
      rows = [example_cells ''2024-03-05T14:30:00.000000+0000'',
              example_cells ''2024-03-06T08:00:00.000000+0000'']\<rparr>"
proof -
  have w: "worklogs example_issue2 =
             [example_worklog ''2024-03-05T14:30:00.000000+0000'',
              example_worklog ''2024-03-06T08:00:00.000000+0000'']"
    by (simp add: example_issue2_def example_issue_def)
  have "issue_rows (PStr ''Sprint 7'') example_issue2 \<noteq> []"
    using length_issue_rows [of "PStr ''Sprint 7''" example_issue2] by auto
  from DataFrame_same_keys [OF this _ distinct_flat_columns] keys_issue_rows
  have "example_frame = \<lparr>columns = flat_columns,
          rows = map (map snd) (issue_rows (PStr ''Sprint 7'') example_issue2)\<rparr>"
    unfolding example_frame_def by blast
  then show ?thesis
    by (simp add: issue_rows_worklogs w example_cells_def)
qed

lemma date_columns_flat:
  "''Worklog Created'' \<in> set flat_columns" "''Worklog Started'' \<in> set flat_columns"
  by (simp_all add: flat_columns_def)

lemma index_of_flat:
  "index_of ''Created'' flat_columns = Some 12"
  "index_of ''Updated'' flat_columns = Some 13"
  "index_of ''Worklog Created'' flat_columns = Some 23"
  "index_of ''Worklog Started'' flat_columns = Some 24"
  by (simp_all add: flat_columns_def)

lemma example_cells_nth:
  "length (example_cells t) = 27"
  "example_cells t ! 12 = PStr ''2024-03-01T09:00:00.000000+0000''"
  "example_cells t ! 13 = PStr ''2024-03-05T14:30:00.000000+0000''"
  "example_cells t ! 23 = PStr t"
  "example_cells t ! 24 = PStr t"
  by (simp_all add: example_cells_def issue_info_def worklog_fields_def example_issue2_def
        example_issue_def example_worklog_def getattr_def)

lemma reformat_example2:
  "reformat_date (PStr ''2024-03-06T08:00:00.000000+0000'') = Inr (PStr ''06/03/2024 08:00:00'')"
  by (simp add: strptime_def rx_defs dt_defs)

lemma reformat_example1:
  "reformat_date (PStr ''2024-03-05T14:30:00.000000+0000'') = Inr (PStr ''05/03/2024 14:30:00'')"
  by (simp add: strptime_example dt_defs)

lemma example_getitem:
  "getitem example_frame ''Worklog Created'' =
     Inr [PStr ''2024-03-05T14:30:00.000000+0000'', PStr ''2024-03-06T08:00:00.000000+0000'']"
  "getitem example_frame ''Worklog Started'' =
     Inr [PStr ''2024-03-05T14:30:00.000000+0000'', PStr ''2024-03-06T08:00:00.000000+0000'']"
  "getitem example_frame ''Created'' =
     Inr [PStr ''2024-03-01T09:00:00.000000+0000'', PStr ''2024-03-01T09:00:00.000000+0000'']"
  by (simp_all add: getitem_def example_frame_eq index_of_flat example_cells_nth)

lemma example_transform:
  "transform_extracted_data example_heap 0 =
     (Inr 0, example_heap (0 :=
        \<lparr>columns = flat_columns,
         rows = [(example_cells ''2024-03-05T14:30:00.000000+0000'')
                   [23 := PStr ''05/03/2024 14:30:00'', 24 := PStr ''05/03/2024 14:30:00''],
                 (example_cells ''2024-03-06T08:00:00.000000+0000'')
                   [23 := PStr ''06/03/2024 08:00:00'', 24 := PStr ''06/03/2024 08:00:00'']]\<rparr>))"
  by (simp add: transform_extracted_data_def date_columns_def example_heap_def getitem_def
       setitem_def example_frame_eq index_of_flat example_cells_nth date_columns_flat
       del: reformat_date.simps add: reformat_example1 reformat_example2)


lemma example_getitem_updated:
  "getitem example_frame ''Updated'' =
     Inr [PStr ''2024-03-05T14:30:00.000000+0000'', PStr ''2024-03-05T14:30:00.000000+0000'']"
  by (simp add: getitem_def example_frame_eq index_of_flat example_cells_nth)

lemma example_aligned: "aligned example_frame"
  by (simp add: aligned_def example_frame_eq example_cells_nth flat_columns_def)

lemma example_transformed:
  "fst (transform_extracted_data example_heap 0) = Inr 0"
  "getitem (snd (transform_extracted_data example_heap 0) 0) ''Worklog Created'' =
     Inr [PStr ''05/03/2024 14:30:00'', PStr ''06/03/2024 08:00:00'']"
  "getitem (snd (transform_extracted_data example_heap 0) 0) ''Worklog Started'' =
     Inr [PStr ''05/03/2024 14:30:00'', PStr ''06/03/2024 08:00:00'']"
  by (simp_all add: example_transform getitem_def index_of_flat example_cells_nth)

lemma example_frame_no_worklog_eq:
  "example_frame_no_worklog =
     \<lparr>columns = flat_columns,
      rows = [map snd (issue_info (PStr ''No Sprint'') (example_issue []) @ no_worklog_fields)]\<rparr>"
proof -
  have w: "worklogs (example_issue []) = []" by (simp add: example_issue_def)
  have "issue_rows (PStr ''No Sprint'') (example_issue []) \<noteq> []"
    by (simp add: issue_rows_no_worklog w)
  from DataFrame_same_keys [OF this _ distinct_flat_columns] keys_issue_rows
  have "example_frame_no_worklog = \<lparr>columns = flat_columns,
          rows = map (map snd) (issue_rows (PStr ''No Sprint'') (example_issue []))\<rparr>"
    unfolding example_frame_no_worklog_def by blast
  then show ?thesis by (simp add: issue_rows_no_worklog w)
qed

lemma example_no_worklog_getitem:
  "getitem example_frame_no_worklog ''Worklog Created'' = Inr [PStr ''N/A'']"
  "getitem example_frame_no_worklog ''Worklog Started'' = Inr [PStr ''N/A'']"
  by (simp_all add: getitem_def example_frame_no_worklog_eq index_of_flat issue_info_def
        no_worklog_fields_def)

section \<open>Paths and directories\<close>









section \<open>The frame the extractor returns, and its first line\<close>








section \<open>Claims\<close>





text \<open>
  C2, as the code has it. Over a project of \<open>T\<close> issues served in pages of 100, the
  page loop ends after exactly \<open>T div 100 + 1\<close> requests, at the offsets 0, 100, 200 and
  so on, and has then appended the rows of all \<open>T\<close> issues. That is \<open>T / 100\<close>
  rounded up when 100 does not divide \<open>T\<close>, and one more than that when it does: a
  last request that brings back nothing (for \<open>T = 0\<close>, the only request).
\<close>

theorem pagination_requests:
  "\<exists>log. paginate (paged_client i T) q sprint 100 0 [] [] =
            Some (Inr (concat (map (issue_rows sprint) (replicate T i))), log) \<and>
          log = map (page_request i T q 100 0) [0..<T div 100 + 1] \<and>
          length log = T div 100 + 1 \<and>
          length log = (if T mod 100 = 0 then ceil_div T 100 + 1 else ceil_div T 100)"
proof -
  have "paginate (paged_client i T) q sprint 100 0 [] [] =
          Some (Inr (concat (map (issue_rows sprint) (replicate T i))),
                map (page_request i T q 100 0) [0..<T div 100 + 1])"
    using paginate_paged [of 100 i T q sprint 0 "[]" "[]"] by simp
  moreover have "T div 100 + 1 = (if T mod 100 = 0 then ceil_div T 100 + 1 else ceil_div T 100)"
    by (simp add: ceil_div_100)
  ultimately show ?thesis by (simp del: upt_Suc)
qed

theorem pagination_ceiling_counterexample:
  "map_option (\<lambda>r. length (snd r))
     (paginate (paged_client example_issue2 100) no_sprint_query (PStr ''No Sprint'') 100 0 [] []) =
     Some 2 \<and>
   ceil_div 100 100 = 1 \<and>
   map_option (\<lambda>r. length (snd r))
     (paginate (paged_client example_issue2 0) no_sprint_query (PStr ''No Sprint'') 100 0 [] []) =
     Some 1 \<and>
   ceil_div 0 100 = 0"
  using paginate_paged [of 100 example_issue2 100 no_sprint_query "PStr ''No Sprint''" 0 "[]" "[]"]
        paginate_paged [of 100 example_issue2 0 no_sprint_query "PStr ''No Sprint''" 0 "[]" "[]"]
  by (simp add: ceil_div_100)

text \<open>
  C3. The parameter \<open>project_key\<close> of \<open>jira_extraction\<close> decides nothing: the result
  and the requests are those for the project \<open>Gest\<close>...\<open>o de Atividades\<close> whatever
  key is given. On the small board, run for the key \<open>OTHER\<close>, the two queries are the
  ones that name that fixed project.
\<close>

theorem project_key_ignored:
  "jira_extraction w jira_server email api_token board_id project_key =
     jira_extraction w jira_server email api_token board_id gestao_de_atividades \<and>
   map_option (\<lambda>r. map fst (snd r)) (example_run ''OTHER'') =
     Some [''project = '' @ [apostrophe] @ gestao_de_atividades @ [apostrophe] @
             '' AND sprint = 7 ORDER BY created DESC'',
           ''project = '' @ [apostrophe] @ gestao_de_atividades @ [apostrophe] @
             '' AND sprint is EMPTY ORDER BY created DESC'']"
  by (simp add: jira_extraction_def example_run_eq sprint_query_def no_sprint_query_def
        str_int_def str_nat.simps [of 7] digit_char_def)

text \<open>
  C5. With the connection made and no active or closed sprint on the board,
  \<open>jira_extraction\<close> raises \<open>UnboundLocalError\<close> for \<open>max_results\<close> before it
  sends any request, whatever issues there are outside the sprints.
\<close>

theorem no_sprints_unbound_local:
  assumes "connection_parameters w jira_server email api_token board_id =
             Inr (server, user, token, board)"
    and "JIRA w server (user, token) = Inr client"
    and "sprints client board ''active,closed'' = Inr []"
  shows "jira_extraction w jira_server email api_token board_id project_key =
           Some (Inl (UnboundLocalError ''max_results''), [])"
  using assms by (simp add: jira_extraction_def extract_board_def sprint_map_of_def)

theorem no_sprints_unbound_local_witness:
  "jira_extraction example_world_no_sprints (Some ''https://jira.example'') (Some ''ana@example'')
       (Some ''token'') (Some ''12'') ''IW'' = Some (Inl (UnboundLocalError ''max_results''), []) \<and>
   search_issues (paged_client example_issue2 1) no_sprint_query 0 100 = Inr [example_issue2]"
proof -
  have c: "connection_parameters example_world_no_sprints (Some ''https://jira.example'')
             (Some ''ana@example'') (Some ''token'') (Some ''12'') =
           Inr (''https://jira.example'', ''ana@example'', ''token'', ''12'')"
    by (simp add: connection_parameters_def)
  have j: "JIRA example_world_no_sprints ''https://jira.example'' (''ana@example'', ''token'') =
           Inr (paged_client example_issue2 1)"
    by (simp add: example_world_no_sprints_def)
  have s: "sprints (paged_client example_issue2 1) ''12'' ''active,closed'' = Inr []"
    by (simp add: paged_client_def)
  from no_sprints_unbound_local [OF c j s, of "''IW''"] show ?thesis
    by (simp add: paged_client_def)
qed

text \<open>
  C4, as the code has it. \<open>transform_extracted_data\<close> makes no new collection: it
  assigns the reformatted cells to the two date columns of the frame it was given and
  returns the reference to that same frame. After a call that returns, the input frame
  itself holds, in each date column, the reformatted cells of what it held before.
\<close>

theorem transform_in_place:
  assumes "aligned (h a)" and "transform_extracted_data h a = (Inr a', h')"
  shows "a' = a \<and>
         (\<exists>old new. getitem (h a) ''Worklog Created'' = Inr old \<and>
            apply_series reformat_date old = Inr new \<and>
            getitem (h' a) ''Worklog Created'' = Inr new) \<and>
         (\<exists>old new. getitem (h a) ''Worklog Started'' = Inr old \<and>
            apply_series reformat_date old = Inr new \<and>
            getitem (h' a) ''Worklog Started'' = Inr new)"
proof -
  from transform_Inr [OF assms(2)] obtain c1 n1 c2 n2 where
    g1: "getitem (h a) ''Worklog Created'' = Inr c1"
    and a1: "apply_series reformat_date c1 = Inr n1"
    and g2: "getitem (setitem (h a) ''Worklog Created'' n1) ''Worklog Started'' = Inr c2"
    and a2: "apply_series reformat_date c2 = Inr n2"
    and a': "a' = a"
    and h': "h' = h(a := setitem (setitem (h a) ''Worklog Created'' n1) ''Worklog Started'' n2)"
    by blast
  let ?d1 = "setitem (h a) ''Worklog Created'' n1"
  from g1 obtain j1 where j1: "index_of ''Worklog Created'' (columns (h a)) = Some j1"
    by (auto simp: getitem_Inr)
  from g1 apply_series_Inr [OF a1] have l1: "length n1 = length (rows (h a))"
    by (auto simp: getitem_Inr)
  from g2 obtain j2 where j2: "index_of ''Worklog Started'' (columns ?d1) = Some j2"
    by (auto simp: getitem_Inr)
  from g2 apply_series_Inr [OF a2] have l2: "length n2 = length (rows ?d1)"
    by (auto simp: getitem_Inr)
  have al1: "aligned ?d1" by (rule aligned_setitem [OF assms(1) j1])
  have old2: "getitem (h a) ''Worklog Started'' = Inr c2"
    using g2 getitem_setitem_other [OF j1 l1, of "''Worklog Started''"] by simp
  have new1: "getitem (h' a) ''Worklog Created'' = Inr n1"
    using h' getitem_setitem_other [OF j2 l2, of "''Worklog Created''"]
          getitem_setitem_same [OF assms(1) j1 l1] by simp
  have new2: "getitem (h' a) ''Worklog Started'' = Inr n2"
    using h' getitem_setitem_same [OF al1 j2 l2] by simp
  from a' g1 a1 new1 old2 a2 new2 show ?thesis by blast
qed

theorem transform_in_place_witness:
  "aligned (example_heap 0) \<and>
   fst (transform_extracted_data example_heap 0) = Inr 0 \<and>
   (\<exists>old new. getitem (example_heap 0) ''Worklog Created'' = Inr old \<and>
      apply_series reformat_date old = Inr new \<and>
      getitem (snd (transform_extracted_data example_heap 0) 0) ''Worklog Created'' = Inr new) \<and>
   (\<exists>old new. getitem (example_heap 0) ''Worklog Started'' = Inr old \<and>
      apply_series reformat_date old = Inr new \<and>
      getitem (snd (transform_extracted_data example_heap 0) 0) ''Worklog Started'' = Inr new)"
proof -
  let ?h' = "snd (transform_extracted_data example_heap 0)"
  have al: "aligned (example_heap 0)" by (simp add: example_heap_def example_aligned)
  have t: "transform_extracted_data example_heap 0 = (Inr 0, ?h')"
    using example_transformed(1) by (simp add: prod_eq_iff)
  from transform_in_place [OF al t] al example_transformed(1) show ?thesis by simp
qed

theorem transform_mutates_input_counterexample:
  "fst (transform_extracted_data example_heap 0) = Inr 0 \<and>
   getitem (example_heap 0) ''Worklog Created'' =
     Inr [PStr ''2024-03-05T14:30:00.000000+0000'', PStr ''2024-03-06T08:00:00.000000+0000''] \<and>
   getitem (snd (transform_extracted_data example_heap 0) 0) ''Worklog Created'' =
     Inr [PStr ''05/03/2024 14:30:00'', PStr ''06/03/2024 08:00:00''] \<and>
   snd (transform_extracted_data example_heap 0) 0 \<noteq> example_heap 0"
proof -
  have e: "getitem (example_heap 0) ''Worklog Created'' =
     Inr [PStr ''2024-03-05T14:30:00.000000+0000'', PStr ''2024-03-06T08:00:00.000000+0000'']"
    by (simp add: example_heap_def example_getitem)
  have "getitem (snd (transform_extracted_data example_heap 0) 0) ''Worklog Created'' \<noteq>
        getitem (example_heap 0) ''Worklog Created''"
    by (simp add: example_transformed e)
  then have "snd (transform_extracted_data example_heap 0) 0 \<noteq> example_heap 0" by auto
  then show ?thesis
    by (simp add: example_transformed e)
qed

text \<open>
  C7. When \<open>transform_extracted_data\<close> returns, the frame has the columns and the
  number of rows it had, and every cell of a column other than \<open>Worklog Created\<close>
  and \<open>Worklog Started\<close> is what it was; so are the columns \<open>Created\<close> and
  \<open>Updated\<close>, left in the source format. No other frame of the heap is touched.
\<close>

theorem transform_frame:
  "transform_extracted_data h a = (Inr a', h') \<longrightarrow>
     a' = a \<and>
     columns (h' a) = columns (h a) \<and>
     length (rows (h' a)) = length (rows (h a)) \<and>
     (\<forall>n<length (rows (h a)). \<forall>j<length (columns (h a)).
        columns (h a) ! j \<notin> set date_columns \<longrightarrow> rows (h' a) ! n ! j = rows (h a) ! n ! j) \<and>
     getitem (h' a) ''Created'' = getitem (h a) ''Created'' \<and>
     getitem (h' a) ''Updated'' = getitem (h a) ''Updated'' \<and>
     (\<forall>b. b \<noteq> a \<longrightarrow> h' b = h b)"
proof
  assume t: "transform_extracted_data h a = (Inr a', h')"
  note inv = transform_inv [OF t]
  have "a' = a"
    using t by (auto simp: transform_extracted_data_def split: option.splits sum.splits prod.splits)
  moreover have "getitem (h' a) ''Created'' = getitem (h a) ''Created''"
    using inv by (intro getitem_cong) (simp_all add: date_columns_def)
  moreover have "getitem (h' a) ''Updated'' = getitem (h a) ''Updated''"
    using inv by (intro getitem_cong) (simp_all add: date_columns_def)
  ultimately show "a' = a \<and>
     columns (h' a) = columns (h a) \<and>
     length (rows (h' a)) = length (rows (h a)) \<and>
     (\<forall>n<length (rows (h a)). \<forall>j<length (columns (h a)).
        columns (h a) ! j \<notin> set date_columns \<longrightarrow> rows (h' a) ! n ! j = rows (h a) ! n ! j) \<and>
     getitem (h' a) ''Created'' = getitem (h a) ''Created'' \<and>
     getitem (h' a) ''Updated'' = getitem (h a) ''Updated'' \<and>
     (\<forall>b. b \<noteq> a \<longrightarrow> h' b = h b)"
    using inv by blast
qed

theorem transform_frame_witness:
  "fst (transform_extracted_data example_heap 0) = Inr 0 \<and>
   columns (snd (transform_extracted_data example_heap 0) 0) = flat_columns \<and>
   length (rows (snd (transform_extracted_data example_heap 0) 0)) = 2 \<and>
   getitem (snd (transform_extracted_data example_heap 0) 0) ''Created'' =
     Inr [PStr ''2024-03-01T09:00:00.000000+0000'', PStr ''2024-03-01T09:00:00.000000+0000''] \<and>
   getitem (snd (transform_extracted_data example_heap 0) 0) ''Updated'' =
     Inr [PStr ''2024-03-05T14:30:00.000000+0000'', PStr ''2024-03-05T14:30:00.000000+0000'']"
proof -
  let ?h' = "snd (transform_extracted_data example_heap 0)"
  have t: "transform_extracted_data example_heap 0 = (Inr 0, ?h')"
    using example_transformed(1) by (simp add: prod_eq_iff)
  from transform_frame [of example_heap 0 0 ?h', rule_format, OF t]
  show ?thesis
    using example_transformed(1) example_getitem example_getitem_updated
    by (simp add: example_heap_def example_frame_eq)
qed

text \<open>
  C8. \<open>transform_extracted_data\<close> raises its own error for a missing column exactly
  when \<open>Worklog Created\<close> or \<open>Worklog Started\<close> is not a column of the frame, and
  the heap is then as it was: no cell has been touched.
\<close>

theorem transform_schema_error:
  "((\<exists>col. fst (transform_extracted_data h a) = Inl (SchemaError col)) \<longleftrightarrow>
      (''Worklog Created'' \<notin> set (columns (h a)) \<or> ''Worklog Started'' \<notin> set (columns (h a)))) \<and>
   ((''Worklog Created'' \<notin> set (columns (h a)) \<or> ''Worklog Started'' \<notin> set (columns (h a))) \<longrightarrow>
      snd (transform_extracted_data h a) = h)"
proof (cases "find (\<lambda>col. col \<notin> set (columns (h a))) date_columns")
  case (Some col)
  then have "\<not> (''Worklog Created'' \<in> set (columns (h a)) \<and> ''Worklog Started'' \<in> set (columns (h a)))"
    using find_missing [of "columns (h a)"] by simp
  with Some show ?thesis by (auto simp: transform_extracted_data_def)
next
  case None
  then have both: "''Worklog Created'' \<in> set (columns (h a)) \<and> ''Worklog Started'' \<in> set (columns (h a))"
    using find_missing [of "columns (h a)"] by simp
  have "fst (transform_extracted_data h a) \<noteq> Inl (SchemaError col)" for col
    using None reformat_columns_error [of date_columns h a]
    by (cases "reformat_columns date_columns h a")
       (auto simp: transform_extracted_data_def split: sum.splits)
  with both show ?thesis by auto
qed

theorem transform_schema_error_witness:
  "(\<exists>col. fst (transform_extracted_data (\<lambda>r. example_frame_no_started) 0) = Inl (SchemaError col)) \<and>
   snd (transform_extracted_data (\<lambda>r. example_frame_no_started) 0) = (\<lambda>r. example_frame_no_started) \<and>
   (\<nexists>col. fst (transform_extracted_data example_heap 0) = Inl (SchemaError col))"
  using transform_schema_error [of "\<lambda>r. example_frame_no_started" 0]
        transform_schema_error [of example_heap 0] date_columns_flat
  by (simp add: example_frame_no_started_def example_heap_def example_frame_eq)

text \<open>
  C9. A cell that holds \<open>N/A\<close> still holds it after the transformer has run once and
  after it has run twice, whatever these runs return. On a frame whose date cells all
  hold \<open>N/A\<close> the transformer returns the frame unchanged, so running it again on the
  result gives what the first run gave.
\<close>

theorem transform_sentinel_idempotent:
  "(transform_extracted_data h a = (r1, h1) \<and> transform_extracted_data h1 a = (r2, h2) \<and>
      n < length (rows (h a)) \<and> rows (h a) ! n ! j = PStr ''N/A'' \<longrightarrow>
        rows (h1 a) ! n ! j = PStr ''N/A'' \<and> rows (h2 a) ! n ! j = PStr ''N/A'') \<and>
   (getitem (h a) ''Worklog Created'' = Inr c1 \<and> getitem (h a) ''Worklog Started'' = Inr c2 \<and>
      (\<forall>v\<in>set (c1 @ c2). v = PStr ''N/A'') \<longrightarrow>
        transform_extracted_data h a = (Inr a, h) \<and>
        transform_extracted_data (snd (transform_extracted_data h a)) a = transform_extracted_data h a)"
proof -
  have one: "rows (h1 a) ! n ! j = PStr ''N/A'' \<and> rows (h2 a) ! n ! j = PStr ''N/A''"
    if t1: "transform_extracted_data h a = (r1, h1)" and t2: "transform_extracted_data h1 a = (r2, h2)"
      and n: "n < length (rows (h a))" and s: "rows (h a) ! n ! j = PStr ''N/A''"
  proof -
    from transform_inv [OF t1] n s
    have 1: "rows (h1 a) ! n ! j = PStr ''N/A''" and l: "n < length (rows (h1 a))" by auto
    from transform_inv [OF t2] l 1 have "rows (h2 a) ! n ! j = PStr ''N/A''" by auto
    with 1 show ?thesis by simp
  qed
  have all: "transform_extracted_data h a = (Inr a, h)"
    if g1: "getitem (h a) ''Worklog Created'' = Inr c1" and g2: "getitem (h a) ''Worklog Started'' = Inr c2"
      and s: "\<forall>v\<in>set (c1 @ c2). v = PStr ''N/A''"
  proof -
    have r: "reformat_date v = Inr v" if "v = PStr ''N/A''" for v
      using that by simp
    from s have "\<forall>v\<in>set c1. reformat_date v = Inr v" and "\<forall>v\<in>set c2. reformat_date v = Inr v"
      by (auto intro!: r)
    then have a1: "apply_series reformat_date c1 = Inr c1"
      and a2: "apply_series reformat_date c2 = Inr c2"
      by (simp_all add: apply_series_id del: reformat_date.simps)
    from g1 g2 have m: "''Worklog Created'' \<in> set (columns (h a))"
        "''Worklog Started'' \<in> set (columns (h a))"
      by (auto simp: getitem_Inr dest: index_of_mem)
    show ?thesis
      by (simp add: transform_extracted_data_def m date_columns_def g1 g2 a1 a2
            setitem_getitem_id [OF g1] setitem_getitem_id [OF g2] del: reformat_date.simps)
  qed
  from one all show ?thesis by auto
qed

theorem transform_sentinel_idempotent_witness:
  "transform_extracted_data (\<lambda>r. example_frame_no_worklog) 0 =
     (Inr 0, (\<lambda>r. example_frame_no_worklog)) \<and>
   transform_extracted_data (snd (transform_extracted_data (\<lambda>r. example_frame_no_worklog) 0)) 0 =
     (Inr 0, (\<lambda>r. example_frame_no_worklog)) \<and>
   getitem example_frame_no_worklog ''Worklog Created'' = Inr [PStr ''N/A''] \<and>
   getitem example_frame_no_worklog ''Worklog Started'' = Inr [PStr ''N/A'']"
  using transform_sentinel_idempotent [where h = "\<lambda>r. example_frame_no_worklog" and a = 0
          and ?c1.0 = "[PStr ''N/A'']" and ?c2.0 = "[PStr ''N/A'']"]
        example_no_worklog_getitem
  by simp



end
